theory Spec2Isabelle
  imports Main "HOL-Library.AList"
begin

section \<open>Python values and string primitives used by \<open>api/query_commons.py\<close>\<close>

text \<open>
  Strings are \<open>char list\<close>; a \<open>char\<close> stands for a code point below 256, so the
  strings of the model are the Python strings over Latin-1. A Python \<open>dict\<close> is an association
  list in insertion order; a well-formed dict has pairwise distinct keys
  (\<open>distinct (map fst d)\<close>). \<open>k in d\<close> is \<open>k \<in> set (map fst d)\<close>, \<open>d[k]\<close> is
  \<open>map_of d k\<close>, \<open>d.keys()\<close> is \<open>map fst d\<close>, and \<open>d[k] = v\<close> is \<open>AList.update k v d\<close>
  (an existing key keeps its position, a new key goes to the end).
\<close>

type_synonym ('k, 'v) dict = "('k \<times> 'v) list"

text \<open>\<open>sep.join(xs)\<close>\<close>

fun str_join :: "string \<Rightarrow> string list \<Rightarrow> string" where
  "str_join sep [] = []"
| "str_join sep [x] = x"
| "str_join sep (x # y # ys) = x @ sep @ str_join sep (y # ys)"

text \<open>\<open>s.split(c)\<close> for a one-character separator; \<open>''.split(c)\<close> is \<open>['']\<close>.\<close>

fun str_split :: "char \<Rightarrow> string \<Rightarrow> string list" where
  "str_split c [] = [[]]"
| "str_split c (x # xs) =
     (if x = c then [] # str_split c xs
      else (case str_split c xs of
              [] \<Rightarrow> [[x]]
            | t # ts \<Rightarrow> (x # t) # ts))"

subsection \<open>Integers and their decimal text\<close>

text \<open>
  A value that is either an \<open>int\<close> or a \<open>str\<close>: what \<open>request.values.get(key, default)\<close>
  returns when the default is an integer, and what an \<open>Error\<close> carries.
\<close>

datatype pyval = PInt int | PStr string

text \<open>
  \<open>int(s)\<close> for a string \<open>s\<close>, base 10: surrounding blanks are stripped, one sign may
  come first, then decimal digits, where single underscores may stand between two
  digits (Python 3.6 and later). \<open>None\<close> stands for \<open>ValueError\<close>.

  The blanks that \<open>int\<close> strips are the space and the controls \<open>0x09\<close> to \<open>0x0D\<close>, and,
  being Unicode white space beyond ASCII, \<open>0x85\<close> and \<open>0xA0\<close>. The separators \<open>0x1C\<close> to
  \<open>0x1F\<close>, which \<open>str.strip\<close> removes, are not among them: \<open>int\<close> of the character
  \<open>0x1F\<close> followed by \<open>7\<close> raises \<open>ValueError\<close>. Below 256 the only decimal digits are
  \<open>0\<close> to \<open>9\<close>.
\<close>

definition is_space :: "char \<Rightarrow> bool" where
  "is_space c = (c \<in> set [CHR '' '', CHR 0x09, CHR 0x0A, CHR 0x0B, CHR 0x0C, CHR 0x0D,
                           CHR 0x85, CHR 0xA0])"

definition is_digit :: "char \<Rightarrow> bool" where
  "is_digit c = (48 \<le> (of_char c :: nat) \<and> (of_char c :: nat) \<le> 57)"

definition digit_value :: "char \<Rightarrow> nat" where
  "digit_value c = of_char c - 48"

text \<open>The digits that follow a digit; \<open>n\<close> is the value read so far.\<close>

fun digits_value :: "nat \<Rightarrow> string \<Rightarrow> nat option" where
  "digits_value n [] = Some n"
| "digits_value n [c] = (if is_digit c then Some (10 * n + digit_value c) else None)"
| "digits_value n (c # d # cs) =
     (if is_digit c then digits_value (10 * n + digit_value c) (d # cs)
      else if c = CHR ''_'' \<and> is_digit d then digits_value (10 * n + digit_value d) cs
      else None)"

definition decimal_value :: "string \<Rightarrow> nat option" where
  "decimal_value s =
     (case s of
        [] \<Rightarrow> None
      | c # cs \<Rightarrow> if is_digit c then digits_value (digit_value c) cs else None)"

definition str_strip :: "string \<Rightarrow> string" where
  "str_strip s = rev (dropWhile is_space (rev (dropWhile is_space s)))"

definition int_of_str :: "string \<Rightarrow> int option" where
  "int_of_str s =
     (case str_strip s of
        [] \<Rightarrow> None
      | c # cs \<Rightarrow>
          if c = CHR ''-'' then map_option (\<lambda>n. - int n) (decimal_value cs)
          else if c = CHR ''+'' then map_option int (decimal_value cs)
          else map_option int (decimal_value (c # cs)))"

text \<open>\<open>int(v)\<close>: the identity on an \<open>int\<close>, parsing on a \<open>str\<close>.\<close>

fun py_int :: "pyval \<Rightarrow> int option" where
  "py_int (PInt i) = Some i"
| "py_int (PStr s) = int_of_str s"

text \<open>\<open>str(i)\<close>, which is what \<open>'{}'.format(i)\<close> inserts for an \<open>int\<close>.\<close>

definition digit_char :: "nat \<Rightarrow> char" where
  "digit_char n = char_of (48 + n)"

fun nat_digits :: "nat \<Rightarrow> string" where
  "nat_digits n =
     (if n < 10 then [digit_char n] else nat_digits (n div 10) @ [digit_char (n mod 10)])"

declare nat_digits.simps [simp del]

definition py_str :: "int \<Rightarrow> string" where
  "py_str i = (if i < 0 then CHR ''-'' # nat_digits (nat (- i)) else nat_digits (nat i))"

subsection \<open>Errors\<close>

text \<open>
  Modelled from the spec: the module \<open>api.error\<close> (\<open>ApiException\<close>, \<open>Error\<close>,
  \<open>ErrorCode\<close>) is imported by the source but is not part of it. An \<open>Error\<close> is a code
  of the set named in the spec together with the offending value; an \<open>ApiException\<close>
  carries a list of them and is not a \<open>ValueError\<close>, so an \<open>except ValueError\<close> does not
  catch it. The other constructors are the Python exceptions the module can run into.
\<close>

datatype ErrorCode =
    QUERY_INVALID_SORT_FIELD
  | QUERY_INVALID_PAGE_SIZE
  | QUERY_INVALID_PAGE_NUMBER

datatype Error = Error ErrorCode pyval

datatype exn =
    ApiException "Error list"
  | ValueError
  | KeyError string
  | TypeError
  | DatabaseError string

section \<open>Field Selector: \<open>get_select_expressions\<close>\<close>

text \<open>The format string \<open>"{} AS `{}`".format(expression, field)\<close>.\<close>

definition select_entry :: "string \<Rightarrow> string \<Rightarrow> string" where
  "select_entry expression field = expression @ '' AS `'' @ field @ ''`''"

text \<open>
  The loop of lines 34-37: \<open>field_selects\<close> is the accumulator, a field that is not a key
  of the dict appends nothing.
\<close>

fun field_selects_loop ::
  "string list \<Rightarrow> (string, string) dict \<Rightarrow> string list \<Rightarrow> string list" where
  "field_selects_loop [] field_expression_dict field_selects = field_selects"
| "field_selects_loop (field # fields) field_expression_dict field_selects =
     (case map_of field_expression_dict field of
        None \<Rightarrow> field_selects_loop fields field_expression_dict field_selects
      | Some expression \<Rightarrow>
          field_selects_loop fields field_expression_dict
            (field_selects @ [select_entry expression field]))"

text \<open>\<open>fields\<close> is \<open>None\<close> or a list; \<open>not fields\<close> holds for \<open>None\<close> and for \<open>[]\<close>.\<close>

definition get_select_expressions ::
  "string list option \<Rightarrow> (string, string) dict \<Rightarrow> string" where
  "get_select_expressions fields field_expression_dict =
     (let fields' = (case fields of
                       None \<Rightarrow> map fst field_expression_dict
                     | Some [] \<Rightarrow> map fst field_expression_dict
                     | Some (f # fs) \<Rightarrow> f # fs)
      in str_join '', '' (field_selects_loop fields' field_expression_dict []))"

text \<open>
  Reading the alias back from one entry of the select list (the spec's "parsing the
  resulting alias"): the text between the closing backquote and the backquote before it.
  This is not code of the module; it gives "the field name of an entry" a meaning.
\<close>

definition entry_alias :: "string \<Rightarrow> string" where
  "entry_alias entry = rev (takeWhile (\<lambda>c. c \<noteq> CHR ''`'') (tl (rev entry)))"

text \<open>The dict of the docstring of \<open>get_select_expressions\<close>.\<close>

definition example_field_expression_dict :: "(string, string) dict" where
  "example_field_expression_dict =
     [(''id'', ''map.uid''),
      (''timestamp'', ''UNIX_TIMESTAMP(t.date)''),
      (''likes'', ''feature.likes'')]"

section \<open>Sort Compiler: \<open>get_order_by\<close>\<close>

text \<open>
  Lines 76-81, for a non-empty \<open>expression\<close>: a leading \<open>-\<close> selects \<open>DESC\<close> and is
  stripped from the column.
\<close>

definition sort_order :: "string \<Rightarrow> string" where
  "sort_order expression = (if hd expression = CHR ''-'' then ''DESC'' else ''ASC'')"

definition sort_column :: "string \<Rightarrow> string" where
  "sort_column expression = (if hd expression = CHR ''-'' then tl expression else expression)"

text \<open>The loop of lines 72-86 with its accumulator \<open>order_bys\<close>; the \<open>raise\<close> ends it.\<close>

fun order_bys_loop :: "string list \<Rightarrow> string list \<Rightarrow> string list \<Rightarrow> exn + string list" where
  "order_bys_loop [] valid_fields order_bys = Inr order_bys"
| "order_bys_loop (expression # sort_expressions) valid_fields order_bys =
     (if expression = [] \<or> expression = ''-''
      then order_bys_loop sort_expressions valid_fields order_bys
      else if sort_column expression \<notin> set valid_fields
      then Inl (ApiException [Error QUERY_INVALID_SORT_FIELD (PStr (sort_column expression))])
      else order_bys_loop sort_expressions valid_fields
             (order_bys @ [''`'' @ sort_column expression @ ''` '' @ sort_order expression]))"

text \<open>\<open>sort_expression\<close> is \<open>None\<close> or a string; \<open>not sort_expression\<close> holds for \<open>None\<close> and \<open>''\<close>.\<close>

definition get_order_by :: "string option \<Rightarrow> string list \<Rightarrow> exn + string" where
  "get_order_by sort_expression valid_fields =
     (case sort_expression of
        None \<Rightarrow> Inr []
      | Some s \<Rightarrow>
          if s = [] then Inr []
          else (case order_bys_loop (str_split CHR '','' s) valid_fields [] of
                  Inl e \<Rightarrow> Inl e
                | Inr order_bys \<Rightarrow>
                    if order_bys = [] then Inr []
                    else Inr (''ORDER BY '' @ str_join '', '' order_bys)))"

section \<open>Pagination Resolver: \<open>get_limit\<close> and \<open>get_page_attributes\<close>\<close>

definition get_limit :: "pyval \<Rightarrow> pyval \<Rightarrow> exn + string" where
  "get_limit page limit =
     (case py_int page of
        None \<Rightarrow> Inl ValueError
      | Some page' \<Rightarrow>
          (case py_int limit of
             None \<Rightarrow> Inl ValueError
           | Some limit' \<Rightarrow>
               Inr (''LIMIT '' @ py_str ((page' - 1) * limit') @ '', '' @ py_str limit')))"

text \<open>
  The request: \<open>request.values\<close> maps a parameter name to its (first) value, a string.
  \<open>values_get\<close> is \<open>request.values.get(key)\<close>, \<open>values_get_default\<close> is
  \<open>request.values.get(key, default)\<close> with an integer default.
\<close>

datatype request = Request (request_values: "string \<Rightarrow> string option")

definition values_get :: "request \<Rightarrow> string \<Rightarrow> string option" where
  "values_get request key = request_values request key"

definition values_get_default :: "request \<Rightarrow> string \<Rightarrow> int \<Rightarrow> pyval" where
  "values_get_default request key dflt =
     (case request_values request key of None \<Rightarrow> PInt dflt | Some s \<Rightarrow> PStr s)"

text \<open>
  Lines 193-210. The \<open>ApiException\<close> raised inside a \<open>try\<close> carries the parsed integer and
  passes the \<open>except ValueError\<close>; a failed \<open>int(...)\<close> is re-raised with the raw value.
\<close>

definition get_page_attributes :: "int \<Rightarrow> request \<Rightarrow> exn + (int \<times> int)" where
  "get_page_attributes max_page_size request =
     (let raw_page_size = values_get_default request ''page[size]'' max_page_size in
      case py_int raw_page_size of
        None \<Rightarrow> Inl (ApiException [Error QUERY_INVALID_PAGE_SIZE raw_page_size])
      | Some page_size \<Rightarrow>
          if page_size > max_page_size
          then Inl (ApiException [Error QUERY_INVALID_PAGE_SIZE (PInt page_size)])
          else
            (let raw_page = values_get_default request ''page[number]'' 1 in
             case py_int raw_page of
               None \<Rightarrow> Inl (ApiException [Error QUERY_INVALID_PAGE_NUMBER raw_page])
             | Some page \<Rightarrow>
                 if page < 1
                 then Inl (ApiException [Error QUERY_INVALID_PAGE_NUMBER (PInt page)])
                 else Inr (page, page_size)))"

section \<open>Query Orchestrator: \<open>fetch_data\<close>\<close>

subsection \<open>Rows, documents, schema and database\<close>

text \<open>
  JSON values. A row of the \<open>DictCursor\<close> and a resource object of the document are
  dicts from names to JSON values.
\<close>

datatype json =
    JNull
  | JInt int
  | JStr string
  | JList "json list"
  | JObj "(string \<times> json) list"

type_synonym row = "(string, json) dict"

type_synonym resource = "(string, json) dict"

text \<open>
  The member \<open>data['data']\<close> of the document that \<open>schema.dump(result, many=many).data\<close>
  returns: one resource object or \<open>null\<close> in single mode, a list of resource objects in
  many mode. The fix-up touches nothing else of the document.
\<close>

datatype document = Single "resource option" | Many "resource list"

text \<open>
  The schema is a parameter of \<open>fetch_data\<close>: its \<open>Meta.type_\<close> and its \<open>dump\<close>, once for
  \<open>many=True\<close> and once for \<open>many=False\<close> (where the result of \<open>fetchone\<close> may be \<open>None\<close>).
\<close>

datatype schema =
  Schema (schema_type: string)
         (dump_many: "row list \<Rightarrow> resource list")
         (dump_one: "row option \<Rightarrow> resource option")

text \<open>
  The global \<open>db.connection\<close>. \<open>respond\<close> is what the server answers to a statement with
  its bound arguments: an error message or the rows; \<open>executed\<close> is the log of the
  statements passed to \<open>cursor.execute\<close> so far.
\<close>

type_synonym args = "(string, json) dict option"

datatype database =
  Database (respond: "string \<Rightarrow> args \<Rightarrow> string + row list")
           (executed: "(string \<times> args) list")

text \<open>
  \<open>cursor.execute(statement, args)\<close>: the statement is logged; a failure of the server
  is raised, otherwise the rows are ready to be fetched.
\<close>

definition execute :: "database \<Rightarrow> string \<Rightarrow> args \<Rightarrow> (exn + row list) \<times> database" where
  "execute db statement args =
     (let db' = Database (respond db) (executed db @ [(statement, args)]) in
      case respond db statement args of
        Inl message \<Rightarrow> (Inl (DatabaseError message), db')
      | Inr rows \<Rightarrow> (Inr rows, db'))"

definition fetchone :: "row list \<Rightarrow> row option" where
  "fetchone rows = (case rows of [] \<Rightarrow> None | r # _ \<Rightarrow> Some r)"

subsection \<open>Lines 118-140: the fields to select\<close>

text \<open>\<open>select_dict.update(nested_dict)\<close>\<close>

definition dict_update :: "('k, 'v) dict \<Rightarrow> ('k, 'v) dict \<Rightarrow> ('k, 'v) dict" where
  "dict_update other d = fold (\<lambda>(k, v). AList.update k v) other d"

text \<open>Lines 123-125: the root dict, updated with every nested dict in turn.\<close>

definition merge_select_dict ::
  "(string, string) dict \<Rightarrow> (string, (string, string) dict) dict \<Rightarrow> (string, string) dict" where
  "merge_select_dict root_select_expression_dict nested_expression_dict =
     fold dict_update (map snd nested_expression_dict) root_select_expression_dict"

text \<open>
  Lines 128-134: the requested names that are keys of \<open>select_dict\<close>, extended with the
  keys of every requested nested dict; all keys of \<open>select_dict\<close> when nothing is requested.
\<close>

definition sanitize_fields ::
  "string option \<Rightarrow> (string, string) dict \<Rightarrow> (string, (string, string) dict) dict \<Rightarrow>
   string list" where
  "sanitize_fields requested_fields select_dict nested_expression_dict =
     (case requested_fields of
        None \<Rightarrow> map fst select_dict
      | Some r \<Rightarrow>
          if r = [] then map fst select_dict
          else
            (let fields = filter (\<lambda>field. field \<in> set (map fst select_dict))
                            (str_split CHR '','' r);
                 nested_fields = filter (\<lambda>field. field \<in> set (map fst nested_expression_dict))
                                   (str_split CHR '','' r)
             in fold (\<lambda>nested_field fields.
                        fields @ (case map_of nested_expression_dict nested_field of
                                    None \<Rightarrow> []
                                  | Some nested_dict \<Rightarrow> map fst nested_dict))
                   nested_fields fields))"

text \<open>
  Lines 118 and 123-140: the final field list together with \<open>id_selected\<close>, which is
  \<open>False\<close> exactly when \<open>id\<close> had to be appended.
\<close>

definition resolve_fields ::
  "schema \<Rightarrow> request \<Rightarrow> (string, string) dict \<Rightarrow> (string, (string, string) dict) dict \<Rightarrow>
   string list \<times> bool" where
  "resolve_fields schema request root_select_expression_dict nested_expression_dict =
     (let requested_fields = values_get request (''fields['' @ schema_type schema @ '']'');
          select_dict = merge_select_dict root_select_expression_dict nested_expression_dict;
          fields = sanitize_fields requested_fields select_dict nested_expression_dict
      in if ''id'' \<notin> set fields then (fields @ [''id''], False) else (fields, True))"

text \<open>Lines 120-121: an explicit, non-empty \<open>sort\<close> wins over the request's \<open>sort\<close> parameter.\<close>

definition effective_sort :: "string option \<Rightarrow> request \<Rightarrow> string option" where
  "effective_sort sort' request =
     (if sort' = None \<or> sort' = Some [] then values_get request ''sort'' else sort')"

subsection \<open>Lines 144-150: pagination and sorting in many mode\<close>

text \<open>
  The pair (\<open>limit_expression\<close>, \<open>order_by_expression\<close>). \<open>get_page_attributes\<close> is called
  before the \<open>limit\<close> flag is looked at.
\<close>

definition resolve_many ::
  "int \<Rightarrow> request \<Rightarrow> bool \<Rightarrow> string option \<Rightarrow> string list \<Rightarrow> exn + (string \<times> string)" where
  "resolve_many max_page_size request limit sort' fields =
     (case get_page_attributes max_page_size request of
        Inl e \<Rightarrow> Inl e
      | Inr (page, page_size) \<Rightarrow>
          (case (if limit then get_limit (PInt page) (PInt page_size) else Inr []) of
             Inl e \<Rightarrow> Inl e
           | Inr limit_expression \<Rightarrow>
               (case get_order_by sort' fields of
                  Inl e \<Rightarrow> Inl e
                | Inr order_by_expression \<Rightarrow> Inr (limit_expression, order_by_expression))))"

subsection \<open>Lines 152-162: the statement\<close>

definition where_part :: "string \<Rightarrow> string \<Rightarrow> string" where
  "where_part where' where_extension =
     (let where'' = (if where' \<noteq> [] then ''WHERE '' @ where' else where')
      in if where_extension \<noteq> [] then where'' @ '' '' @ where_extension else where'')"

text \<open>\<open>"SELECT {} FROM {} {} {} {}".format(...)\<close>\<close>

definition select_statement :: "string \<Rightarrow> string \<Rightarrow> string \<Rightarrow> string \<Rightarrow> string \<Rightarrow> string" where
  "select_statement select_expressions table where' order_by_expression limit_expression =
     ''SELECT '' @ select_expressions @ '' FROM '' @ table @ '' '' @ where' @ '' '' @
     order_by_expression @ '' '' @ limit_expression"

subsection \<open>Lines 181-188: the fix-up of \<open>id\<close>\<close>

text \<open>
  \<open>item['attributes']['id'] = item['id']\<close>: the right-hand side is evaluated first
  (\<open>KeyError\<close> without an \<open>id\<close>), then \<open>item['attributes']\<close>, which must be a dict to be
  assigned into.
\<close>

definition set_attributes_id :: "resource \<Rightarrow> exn + resource" where
  "set_attributes_id item =
     (case map_of item ''id'' of
        None \<Rightarrow> Inl (KeyError ''id'')
      | Some i \<Rightarrow>
          (case map_of item ''attributes'' of
             None \<Rightarrow> Inl (KeyError ''attributes'')
           | Some (JObj attributes) \<Rightarrow>
               Inr (AList.update ''attributes'' (JObj (AList.update ''id'' i attributes)) item)
           | Some _ \<Rightarrow> Inl TypeError))"

text \<open>The loop of lines 183-186; \<open>break\<close> leaves the rest of the list as it is.\<close>

fun fix_many :: "resource list \<Rightarrow> exn + resource list" where
  "fix_many [] = Inr []"
| "fix_many (item # items) =
     (if ''attributes'' \<notin> set (map fst item) then Inr (item # items)
      else (case set_attributes_id item of
              Inl e \<Rightarrow> Inl e
            | Inr item' \<Rightarrow>
                (case fix_many items of
                   Inl e \<Rightarrow> Inl e
                 | Inr items' \<Rightarrow> Inr (item' # items'))))"

text \<open>Lines 187-188; \<open>'id' in None\<close> is a \<open>TypeError\<close>.\<close>

definition fix_one :: "resource option \<Rightarrow> exn + resource option" where
  "fix_one data =
     (case data of
        None \<Rightarrow> Inl TypeError
      | Some item \<Rightarrow>
          if ''id'' \<in> set (map fst item) \<and> ''attributes'' \<in> set (map fst item)
          then (case set_attributes_id item of Inl e \<Rightarrow> Inl e | Inr item' \<Rightarrow> Inr (Some item'))
          else Inr (Some item))"

subsection \<open>Lines 164-176: fetching, enriching, serializing\<close>

text \<open>
  The enricher mutates a row in place; here it returns the new row. In single mode it
  runs only on a truthy result: a row that is not \<open>None\<close> and not the empty dict.
\<close>

definition dump_result :: "schema \<Rightarrow> bool \<Rightarrow> (row \<Rightarrow> row) option \<Rightarrow> row list \<Rightarrow> document" where
  "dump_result schema many enricher rows =
     (if many then
        (let result = rows;
             result = (case enricher of None \<Rightarrow> result | Some f \<Rightarrow> map f result)
         in Many (dump_many schema result))
      else
        (let result = fetchone rows;
             result = (case enricher of
                         None \<Rightarrow> result
                       | Some f \<Rightarrow>
                           (case result of
                              None \<Rightarrow> None
                            | Some r \<Rightarrow> if r \<noteq> [] then Some (f r) else Some r))
         in Single (dump_one schema result)))"

text \<open>Lines 181-188 on the document.\<close>

definition fix_id :: "document \<Rightarrow> exn + document" where
  "fix_id data =
     (case data of
        Many items \<Rightarrow> (case fix_many items of Inl e \<Rightarrow> Inl e | Inr items' \<Rightarrow> Inr (Many items'))
      | Single item \<Rightarrow> (case fix_one item of Inl e \<Rightarrow> Inl e | Inr item' \<Rightarrow> Inr (Single item')))"

subsection \<open>\<open>fetch_data\<close>\<close>

text \<open>
  The parameters in the order of the source; \<open>where'\<close> and \<open>sort'\<close> stand for \<open>where\<close> and
  \<open>sort\<close>, \<open>nested_expression_dict\<close> for the keyword arguments, and the database state is
  passed in and returned. An exception leaves the function with the database as it is at
  that moment.
\<close>

definition fetch_data ::
  "schema \<Rightarrow> string \<Rightarrow> (string, string) dict \<Rightarrow> int \<Rightarrow> request \<Rightarrow> string \<Rightarrow> string \<Rightarrow> args \<Rightarrow>
   bool \<Rightarrow> (row \<Rightarrow> row) option \<Rightarrow> string option \<Rightarrow> bool \<Rightarrow>
   (string, (string, string) dict) dict \<Rightarrow> database \<Rightarrow> (exn + document) \<times> database" where
  "fetch_data schema table root_select_expression_dict max_page_size request where'
     where_extension args many enricher sort' limit nested_expression_dict db =
     (let sort'' = effective_sort sort' request;
          select_dict = merge_select_dict root_select_expression_dict nested_expression_dict;
          (fields, id_selected) =
             resolve_fields schema request root_select_expression_dict nested_expression_dict;
          select_expressions = get_select_expressions (Some fields) select_dict
      in case (if many then resolve_many max_page_size request limit sort'' fields
               else Inr ([], [])) of
           Inl e \<Rightarrow> (Inl e, db)
         | Inr (limit_expression, order_by_expression) \<Rightarrow>
             (case execute db
                     (select_statement select_expressions table
                        (where_part where' where_extension)
                        order_by_expression limit_expression)
                     args of
                (Inl e, db') \<Rightarrow> (Inl e, db')
              | (Inr rows, db') \<Rightarrow>
                  (let data = dump_result schema many enricher rows
                   in if id_selected then (fix_id data, db') else (Inr data, db'))))"

text \<open>
  Reading \<open>item['attributes']['id']\<close> off a resource of the finished document (\<open>None\<close>
  when there is no attributes object or no \<open>id\<close> in it). This is an observation on the
  result, not code of the module.
\<close>

definition attributes_id :: "resource \<Rightarrow> json option" where
  "attributes_id item =
     (case map_of item ''attributes'' of
        Some (JObj attributes) \<Rightarrow> map_of attributes ''id''
      | _ \<Rightarrow> None)"

subsection \<open>An example resource type\<close>

text \<open>
  A schema in the way of the serialization library as the comment above line 181
  describes it: \<open>id\<close> is put into the resource object and not into its \<open>attributes\<close>,
  which hold the other columns of the row (and are left out when there are none).
\<close>

definition example_dump_row :: "row \<Rightarrow> resource" where
  "example_dump_row r =
     (case map_of r ''id'' of None \<Rightarrow> [] | Some i \<Rightarrow> [(''id'', i)]) @
     [(''type'', JStr ''map'')] @
     (if filter (\<lambda>(k, v). k \<noteq> ''id'') r = [] then []
      else [(''attributes'', JObj (filter (\<lambda>(k, v). k \<noteq> ''id'') r))])"

definition example_schema :: schema where
  "example_schema = Schema ''map'' (map example_dump_row) (map_option example_dump_row)"

definition example_root :: "(string, string) dict" where
  "example_root = [(''id'', ''map.uid''), (''name'', ''map.name''), (''likes'', ''feature.likes'')]"

text \<open>A server that answers every statement with the same two rows, or with an error.\<close>

definition example_rows :: "row list" where
  "example_rows =
     [[(''id'', JInt 1), (''name'', JStr ''Seton'')],
      [(''id'', JInt 2), (''name'', JStr ''Theta'')]]"

definition example_db :: database where
  "example_db = Database (\<lambda>statement args. Inr example_rows) []"

text \<open>A server whose first row has no column besides \<open>id\<close>.\<close>

definition example_db_mixed :: database where
  "example_db_mixed =
     Database (\<lambda>statement args.
                 Inr [[(''id'', JInt 1)], [(''id'', JInt 2), (''name'', JStr ''Theta'')]]) []"


section \<open>Properties of the Field Selector\<close>

lemma field_selects_loop_acc:
  "field_selects_loop fields d acc =
     acc @ map (\<lambda>f. select_entry (the (map_of d f)) f)
             (filter (\<lambda>f. f \<in> set (map fst d)) fields)"
proof (induction fields arbitrary: acc)
  case Nil
  show ?case by simp
next
  case (Cons f fs)
  show ?case
  proof (cases "map_of d f")
    case None
    then have "f \<notin> set (map fst d)"
      by (simp add: map_of_eq_None_iff)
    with None Cons show ?thesis by simp
  next
    case (Some e)
    then have "f \<in> set (map fst d)"
      by (metis map_of_eq_None_iff option.distinct(1) set_map)
    with Some Cons show ?thesis by simp
  qed
qed

lemma map_entry_keys:
  "distinct (map fst d) \<Longrightarrow>
   map (\<lambda>f. select_entry (the (map_of d f)) f) (map fst d) =
   map (\<lambda>(k, v). select_entry v k) d"
  by (induction d) (auto simp: rev_image_eqI)

text \<open>
  C3. For a non-empty requested list the fragment is the comma-joined list of
  \<open>expr AS `name`\<close> entries of exactly the requested names that are keys of the map, in
  the order of the request (names that are not keys contribute nothing); for an absent
  or empty list it has one entry per key of the map, in the map's iteration order.
\<close>

theorem get_select_expressions_spec:
  "(fields \<noteq> [] \<longrightarrow>
      get_select_expressions (Some fields) d =
        str_join '', '' (map (\<lambda>f. select_entry (the (map_of d f)) f)
                             (filter (\<lambda>f. f \<in> set (map fst d)) fields)))
   \<and> (distinct (map fst d) \<longrightarrow>
        get_select_expressions None d = str_join '', '' (map (\<lambda>(k, v). select_entry v k) d)
      \<and> get_select_expressions (Some []) d = str_join '', '' (map (\<lambda>(k, v). select_entry v k) d))"
proof (intro conjI impI)
  assume "fields \<noteq> []"
  then obtain f fs where "fields = f # fs" by (cases fields) auto
  then show "get_select_expressions (Some fields) d =
        str_join '', '' (map (\<lambda>f. select_entry (the (map_of d f)) f)
                             (filter (\<lambda>f. f \<in> set (map fst d)) fields))"
    unfolding get_select_expressions_def Let_def
    by (simp only: option.case list.case field_selects_loop_acc append_Nil)
next
  assume dist: "distinct (map fst d)"
  have all: "field_selects_loop (map fst d) d [] = map (\<lambda>(k, v). select_entry v k) d"
    using map_entry_keys [OF dist] by (simp add: field_selects_loop_acc)
  show "get_select_expressions None d = str_join '', '' (map (\<lambda>(k, v). select_entry v k) d)"
    by (simp add: get_select_expressions_def all)
  show "get_select_expressions (Some []) d = str_join '', '' (map (\<lambda>(k, v). select_entry v k) d)"
    by (simp add: get_select_expressions_def all)
qed

theorem get_select_expressions_spec_witness:
  "[''id'', ''nope'', ''timestamp''] \<noteq> []
   \<and> distinct (map fst example_field_expression_dict)
   \<and> get_select_expressions (Some [''id'', ''nope'', ''timestamp'']) example_field_expression_dict =
       ''map.uid AS `id`, UNIX_TIMESTAMP(t.date) AS `timestamp`''
   \<and> get_select_expressions None example_field_expression_dict =
       ''map.uid AS `id`, UNIX_TIMESTAMP(t.date) AS `timestamp`, feature.likes AS `likes`''"
  using get_select_expressions_spec
          [of "[''id'', ''nope'', ''timestamp'']" example_field_expression_dict]
  by (simp add: example_field_expression_dict_def select_entry_def)

lemma takeWhile_until:
  "\<forall>x \<in> set xs. P x \<Longrightarrow> \<not> P y \<Longrightarrow> takeWhile P (xs @ y # ys) = xs"
  by (induction xs) auto

lemma entry_alias_select_entry:
  "CHR ''`'' \<notin> set field \<Longrightarrow> entry_alias (select_entry expression field) = field"
proof -
  assume nb: "CHR ''`'' \<notin> set field"
  have "tl (rev (select_entry expression field)) = rev field @ CHR ''`'' # rev (expression @ '' AS '')"
    by (simp add: select_entry_def)
  moreover have "takeWhile (\<lambda>c. c \<noteq> CHR ''`'') (rev field @ CHR ''`'' # rev (expression @ '' AS '')) = rev field"
    using nb by (intro takeWhile_until) auto
  ultimately show ?thesis by (simp add: entry_alias_def)
qed

lemma map_of_the_key: "f \<in> set (map fst d) \<Longrightarrow> \<exists>e. map_of d f = Some e"
  by (induction d) auto

text \<open>
  C4 (as stated, refuted). Requesting \<open>id\<close> twice yields two entries with the alias
  \<open>id\<close>: the select list is not deduplicated.
\<close>

theorem get_select_expressions_dedup_counterexample:
  "\<not> distinct (map entry_alias
        (field_selects_loop [''id'', ''id''] example_field_expression_dict []))
   \<and> get_select_expressions (Some [''id'', ''id'']) example_field_expression_dict =
       ''map.uid AS `id`, map.uid AS `id`''"
  by (simp add: get_select_expressions_def example_field_expression_dict_def
        select_entry_def entry_alias_def)

text \<open>
  C4 (amended). The select list has one entry per occurrence, in the requested list, of a
  name that is a key of the map: when no key contains a backquote, the aliases of the
  entries are, in order, the requested names that are keys. So a name appears among the
  entries as often as it was requested, and at most once when the requested list has no
  repeated name.
\<close>

theorem get_select_expressions_aliases:
  assumes "\<forall>k \<in> set (map fst d). CHR ''`'' \<notin> set k"
  shows "map entry_alias (field_selects_loop fields d []) =
           filter (\<lambda>f. f \<in> set (map fst d)) fields
       \<and> (\<forall>f. count_list (map entry_alias (field_selects_loop fields d [])) f =
               (if f \<in> set (map fst d) then count_list fields f else 0))
       \<and> (distinct fields \<longrightarrow> distinct (map entry_alias (field_selects_loop fields d [])))"
proof -
  have al: "map entry_alias (field_selects_loop fields d []) =
           filter (\<lambda>f. f \<in> set (map fst d)) fields"
  proof -
    have "entry_alias (select_entry (the (map_of d f)) f) = f"
      if "f \<in> set (filter (\<lambda>f. f \<in> set (map fst d)) fields)" for f
      using that assms by (intro entry_alias_select_entry) auto
    then have "map (\<lambda>f. entry_alias (select_entry (the (map_of d f)) f))
                 (filter (\<lambda>f. f \<in> set (map fst d)) fields) =
               filter (\<lambda>f. f \<in> set (map fst d)) fields"
      by (rule map_idI)
    then show ?thesis
      by (simp add: field_selects_loop_acc comp_def)
  qed
  have cnt: "count_list (filter P xs) f = (if P f then count_list xs f else 0)"
    for P and xs :: "string list" and f
    by (induction xs) auto
  show ?thesis
    by (simp only: al cnt distinct_filter) simp
qed

theorem get_select_expressions_aliases_witness:
  "map entry_alias
       (field_selects_loop [''likes'', ''nope'', ''id'', ''likes''] example_field_expression_dict []) =
       [''likes'', ''id'', ''likes'']
   \<and> distinct [''likes'', ''nope'', ''id'']
   \<and> distinct (map entry_alias
       (field_selects_loop [''likes'', ''nope'', ''id''] example_field_expression_dict []))"
proof -
  have h: "\<forall>k \<in> set (map fst example_field_expression_dict). CHR ''`'' \<notin> set k"
    by (simp add: example_field_expression_dict_def)
  show ?thesis
    using h get_select_expressions_aliases [OF h, of "[''likes'', ''nope'', ''id'', ''likes'']"]
      get_select_expressions_aliases [OF h, of "[''likes'', ''nope'', ''id'']"]
    by (simp add: example_field_expression_dict_def)
qed

section \<open>Decimal text of an integer parses back to it\<close>

lemma of_char_digit_char: "n < 10 \<Longrightarrow> (of_char (digit_char n) :: nat) = 48 + n"
  by (simp add: digit_char_def)

lemma is_digit_digit_char: "n < 10 \<Longrightarrow> is_digit (digit_char n)"
  by (simp add: is_digit_def of_char_digit_char)

lemma digit_value_digit_char: "n < 10 \<Longrightarrow> digit_value (digit_char n) = n"
  by (simp add: digit_value_def of_char_digit_char)

lemma is_digit_not_space: "is_digit c \<Longrightarrow> \<not> is_space c"
  by (auto simp: is_digit_def is_space_def)

lemma is_digit_not_sign: "is_digit c \<Longrightarrow> c \<noteq> CHR ''-'' \<and> c \<noteq> CHR ''+''"
  by (auto simp: is_digit_def)

lemma nat_digits_all_digits: "\<forall>c \<in> set (nat_digits n). is_digit c"
proof (induction n rule: nat_digits.induct)
  case (1 n)
  show ?case
  proof (cases "n < 10")
    case True
    then show ?thesis by (subst nat_digits.simps) (simp add: is_digit_digit_char)
  next
    case False
    with 1 show ?thesis by (subst nat_digits.simps) (simp add: is_digit_digit_char)
  qed
qed

lemma nat_digits_not_Nil: "nat_digits n \<noteq> []"
  by (subst nat_digits.simps) simp

lemma digits_value_foldl:
  "\<forall>c \<in> set ds. is_digit c \<Longrightarrow>
   digits_value n ds = Some (foldl (\<lambda>a c. 10 * a + digit_value c) n ds)"
  by (induction n ds rule: digits_value.induct) auto

lemma decimal_value_foldl:
  "ds \<noteq> [] \<Longrightarrow> \<forall>c \<in> set ds. is_digit c \<Longrightarrow>
   decimal_value ds = Some (foldl (\<lambda>a c. 10 * a + digit_value c) 0 ds)"
  by (cases ds) (simp_all add: decimal_value_def digits_value_foldl)

lemma foldl_nat_digits: "foldl (\<lambda>a c. 10 * a + digit_value c) 0 (nat_digits n) = n"
proof (induction n rule: nat_digits.induct)
  case (1 n)
  show ?case
  proof (cases "n < 10")
    case True
    then show ?thesis by (subst nat_digits.simps) (simp add: digit_value_digit_char)
  next
    case False
    with 1 show ?thesis by (subst nat_digits.simps) (simp add: digit_value_digit_char)
  qed
qed

lemma decimal_value_nat_digits: "decimal_value (nat_digits n) = Some n"
  by (simp add: decimal_value_foldl nat_digits_not_Nil nat_digits_all_digits foldl_nat_digits)

lemma dropWhile_none: "xs \<noteq> [] \<Longrightarrow> \<not> P (hd xs) \<Longrightarrow> dropWhile P xs = xs"
  by (cases xs) auto

lemma str_strip_id:
  assumes "s \<noteq> []" "\<not> is_space (hd s)" "\<not> is_space (last s)"
  shows "str_strip s = s"
proof -
  have "dropWhile is_space s = s" using assms by (simp add: dropWhile_none)
  moreover have "dropWhile is_space (rev s) = rev s"
    using assms by (intro dropWhile_none) (simp_all add: hd_rev)
  ultimately show ?thesis by (simp add: str_strip_def)
qed

lemma nat_digits_ends:
  "\<not> is_space (hd (nat_digits n))" "\<not> is_space (last (nat_digits n))"
  using nat_digits_all_digits [of n] nat_digits_not_Nil [of n]
  by (auto intro!: is_digit_not_space)

lemma str_strip_nat_digits: "str_strip (nat_digits n) = nat_digits n"
  by (intro str_strip_id nat_digits_ends nat_digits_not_Nil)

lemma str_strip_minus_nat_digits: "str_strip (CHR ''-'' # nat_digits n) = CHR ''-'' # nat_digits n"
proof (rule str_strip_id)
  show "\<not> is_space (hd (CHR ''-'' # nat_digits n))" by (simp add: is_space_def)
  show "\<not> is_space (last (CHR ''-'' # nat_digits n))"
    using nat_digits_ends(2) [of n] nat_digits_not_Nil [of n] by simp
qed simp

lemma int_of_str_py_str: "int_of_str (py_str i) = Some i"
proof (cases "i < 0")
  case True
  then show ?thesis
    by (simp add: py_str_def int_of_str_def str_strip_minus_nat_digits decimal_value_nat_digits)
next
  case False
  obtain c cs where cs: "nat_digits (nat i) = c # cs"
    using nat_digits_not_Nil [of "nat i"] by (cases "nat_digits (nat i)") auto
  then have "is_digit c" using nat_digits_all_digits [of "nat i"] by simp
  then have ns: "c \<noteq> CHR ''-''" "c \<noteq> CHR ''+''" using is_digit_not_sign by auto
  have "decimal_value (c # cs) = Some (nat i)"
    using decimal_value_nat_digits [of "nat i"] cs by simp
  with False ns cs show ?thesis
    using str_strip_nat_digits [of "nat i"]
    by (simp add: py_str_def int_of_str_def)
qed

lemma str_strip_Cons:
  assumes "\<not> is_space c"
  shows "\<exists>s'. str_strip (c # s) = c # s'"
proof -
  have "dropWhile is_space (rev s @ [c]) =
          (if \<forall>x \<in> set (rev s). is_space x then [c] else dropWhile is_space (rev s) @ [c])"
    using assms by (simp add: dropWhile_append)
  then obtain xs where "dropWhile is_space (rev s @ [c]) = xs @ [c]"
    by (metis append_Nil)
  then have "str_strip (c # s) = c # rev xs"
    using assms by (simp add: str_strip_def)
  then show ?thesis ..
qed

lemma int_of_str_bad_start:
  assumes "\<not> is_space c" "\<not> is_digit c" "c \<noteq> CHR ''+''" "c \<noteq> CHR ''-''"
  shows "int_of_str (c # s) = None"
proof -
  obtain s' where "str_strip (c # s) = c # s'"
    using str_strip_Cons [OF assms(1)] by blast
  then show ?thesis
    using assms by (simp add: int_of_str_def decimal_value_def)
qed

section \<open>Properties of the Sort Compiler\<close>

lemma order_bys_loop_acc:
  "order_bys_loop es valid acc =
     (case find (\<lambda>c. c \<notin> set valid)
             (map sort_column (filter (\<lambda>t. t \<noteq> [] \<and> t \<noteq> ''-'') es)) of
        Some c \<Rightarrow> Inl (ApiException [Error QUERY_INVALID_SORT_FIELD (PStr c)])
      | None \<Rightarrow>
          Inr (acc @ map (\<lambda>t. ''`'' @ sort_column t @ ''` '' @ sort_order t)
                       (filter (\<lambda>t. t \<noteq> [] \<and> t \<noteq> ''-'') es)))"
proof (induction es arbitrary: acc)
  case Nil
  show ?case by simp
next
  case (Cons e es)
  show ?case
  proof (cases "e = [] \<or> e = ''-''")
    case True
    then have "filter (\<lambda>t. t \<noteq> [] \<and> t \<noteq> ''-'') (e # es) =
               filter (\<lambda>t. t \<noteq> [] \<and> t \<noteq> ''-'') es"
      by auto
    moreover have "order_bys_loop (e # es) valid acc = order_bys_loop es valid acc"
      using True by auto
    ultimately show ?thesis using Cons [of acc] by (simp only:)
  next
    case False
    then have f: "filter (\<lambda>t. t \<noteq> [] \<and> t \<noteq> ''-'') (e # es) =
               e # filter (\<lambda>t. t \<noteq> [] \<and> t \<noteq> ''-'') es"
      by auto
    show ?thesis
    proof (cases "sort_column e \<in> set valid")
      case True
      then have "order_bys_loop (e # es) valid acc =
                 order_bys_loop es valid (acc @ [''`'' @ sort_column e @ ''` '' @ sort_order e])"
        using False by auto
      then show ?thesis
        using True False Cons [of "acc @ [''`'' @ sort_column e @ ''` '' @ sort_order e]"]
        by (simp add: f split: option.splits)
    next
      case no: False
      then have "order_bys_loop (e # es) valid acc =
                 Inl (ApiException [Error QUERY_INVALID_SORT_FIELD (PStr (sort_column e))])"
        using False by auto
      then show ?thesis using no False by (simp add: f)
    qed
  qed
qed

text \<open>
  C5. \<open>get_order_by\<close> splits the expression at commas and drops the empty tokens and the
  tokens \<open>-\<close>; a token \<open>-col\<close> stands for column \<open>col\<close> descending, any other token for
  itself ascending. If some column of a surviving token is not in the allow-list, the
  result is the \<open>InvalidSortField\<close> error carrying the first such column; otherwise it is
  \<open>ORDER BY\<close> followed by the columns in input order, each with its direction, or the
  empty string when no token survives. \<open>None\<close> and the empty string give the empty string.
\<close>

theorem get_order_by_spec:
  "get_order_by None valid = Inr []
   \<and> get_order_by (Some []) valid = Inr []
   \<and> get_order_by (Some s) valid =
       (case find (\<lambda>c. c \<notin> set valid)
               (map sort_column (filter (\<lambda>t. t \<noteq> [] \<and> t \<noteq> ''-'') (str_split CHR '','' s))) of
          Some c \<Rightarrow> Inl (ApiException [Error QUERY_INVALID_SORT_FIELD (PStr c)])
        | None \<Rightarrow>
            Inr (if filter (\<lambda>t. t \<noteq> [] \<and> t \<noteq> ''-'') (str_split CHR '','' s) = [] then []
                 else ''ORDER BY '' @
                      str_join '', ''
                        (map (\<lambda>t. ''`'' @ sort_column t @ ''` '' @ sort_order t)
                           (filter (\<lambda>t. t \<noteq> [] \<and> t \<noteq> ''-'') (str_split CHR '','' s)))))
   \<and> sort_column (c # col) = (if c = CHR ''-'' then col else c # col)
   \<and> sort_order (c # col) = (if c = CHR ''-'' then ''DESC'' else ''ASC'')"
proof (intro conjI)
  show "get_order_by None valid = Inr []" by (simp add: get_order_by_def)
  show "get_order_by (Some []) valid = Inr []" by (simp add: get_order_by_def)
  show "sort_column (c # col) = (if c = CHR ''-'' then col else c # col)"
    by (simp add: sort_column_def)
  show "sort_order (c # col) = (if c = CHR ''-'' then ''DESC'' else ''ASC'')"
    by (simp add: sort_order_def)
  show "get_order_by (Some s) valid =
       (case find (\<lambda>c. c \<notin> set valid)
               (map sort_column (filter (\<lambda>t. t \<noteq> [] \<and> t \<noteq> ''-'') (str_split CHR '','' s))) of
          Some c \<Rightarrow> Inl (ApiException [Error QUERY_INVALID_SORT_FIELD (PStr c)])
        | None \<Rightarrow>
            Inr (if filter (\<lambda>t. t \<noteq> [] \<and> t \<noteq> ''-'') (str_split CHR '','' s) = [] then []
                 else ''ORDER BY '' @
                      str_join '', ''
                        (map (\<lambda>t. ''`'' @ sort_column t @ ''` '' @ sort_order t)
                           (filter (\<lambda>t. t \<noteq> [] \<and> t \<noteq> ''-'') (str_split CHR '','' s)))))"
  proof (cases "s = []")
    case True
    then show ?thesis by (simp add: get_order_by_def)
  next
    case False
    then show ?thesis
      by (simp add: get_order_by_def order_bys_loop_acc split: option.splits)
  qed
qed

theorem get_order_by_spec_witness:
  "get_order_by (Some ''likes,-timestamp,,-'') [''likes'', ''timestamp''] =
     Inr ''ORDER BY `likes` ASC, `timestamp` DESC''
   \<and> get_order_by (Some ''likes,-name,-x'') [''likes'', ''timestamp''] =
     Inl (ApiException [Error QUERY_INVALID_SORT_FIELD (PStr ''name'')])
   \<and> get_order_by (Some '',-,'') [''likes''] = Inr []"
  using get_order_by_spec [of "[''likes'', ''timestamp'']" "''likes,-timestamp,,-''"]
    get_order_by_spec [of "[''likes'', ''timestamp'']" "''likes,-name,-x''"]
    get_order_by_spec [of "[''likes'']" "'',-,''"]
  by (simp add: sort_column_def sort_order_def)

section \<open>Properties of the Pagination Resolver\<close>

text \<open>
  C6. For integers \<open>p\<close> and \<open>s\<close>, \<open>get_limit\<close> returns \<open>LIMIT offset, count\<close> where the two
  numbers are the decimal text of \<open>(p - 1) * s\<close> and of \<open>s\<close> (text that parses back to
  these integers); page 2 with size 10 gives \<open>LIMIT 10, 10\<close>.
\<close>

theorem get_limit_spec:
  "get_limit (PInt p) (PInt s) = Inr (''LIMIT '' @ py_str ((p - 1) * s) @ '', '' @ py_str s)
   \<and> int_of_str (py_str ((p - 1) * s)) = Some ((p - 1) * s)
   \<and> int_of_str (py_str s) = Some s
   \<and> get_limit (PInt 2) (PInt 10) = Inr ''LIMIT 10, 10''"
proof -
  have "get_limit (PInt 2) (PInt 10) = Inr ''LIMIT 10, 10''"
    by code_simp
  then show ?thesis
    by (simp add: get_limit_def int_of_str_py_str)
qed

text \<open>
  C7. \<open>get_page_attributes\<close> reads \<open>page[size]\<close> (default: the maximum) and
  \<open>page[number]\<close> (default: 1). A size that does not parse raises \<open>InvalidPageSize\<close>
  with the raw value, a size above the maximum raises it with the parsed size; with a
  valid size, a number that does not parse raises \<open>InvalidPageNumber\<close> with the raw
  value and a number below 1 raises it with the parsed number; otherwise the pair
  (page, page size) is returned, whatever the size of the page number. In particular,
  for the decimal text of any integer as parameter: a size up to the maximum is
  returned, a larger one is refused, a page number from 1 on is returned and a smaller
  one is refused; the empty string is refused as a size, and so is every string whose
  first character is neither a blank that \<open>int\<close> strips nor a digit nor a sign, for
  instance the separator \<open>0x1F\<close>.
\<close>

theorem get_page_attributes_spec:
  "(py_int (values_get_default request ''page[size]'' m) = None \<longrightarrow>
      get_page_attributes m request =
        Inl (ApiException [Error QUERY_INVALID_PAGE_SIZE
                             (values_get_default request ''page[size]'' m)]))
   \<and> (\<forall>z. py_int (values_get_default request ''page[size]'' m) = Some z \<and> z > m \<longrightarrow>
        get_page_attributes m request =
          Inl (ApiException [Error QUERY_INVALID_PAGE_SIZE (PInt z)]))
   \<and> (\<forall>z. py_int (values_get_default request ''page[size]'' m) = Some z \<and> z \<le> m
          \<and> py_int (values_get_default request ''page[number]'' 1) = None \<longrightarrow>
        get_page_attributes m request =
          Inl (ApiException [Error QUERY_INVALID_PAGE_NUMBER
                               (values_get_default request ''page[number]'' 1)]))
   \<and> (\<forall>z n. py_int (values_get_default request ''page[size]'' m) = Some z \<and> z \<le> m
          \<and> py_int (values_get_default request ''page[number]'' 1) = Some n \<and> n < 1 \<longrightarrow>
        get_page_attributes m request =
          Inl (ApiException [Error QUERY_INVALID_PAGE_NUMBER (PInt n)]))
   \<and> (\<forall>z n. py_int (values_get_default request ''page[size]'' m) = Some z \<and> z \<le> m
          \<and> py_int (values_get_default request ''page[number]'' 1) = Some n \<and> 1 \<le> n \<longrightarrow>
        get_page_attributes m request = Inr (n, z))
   \<and> (\<forall>n. 1 \<le> n \<longrightarrow>
        get_page_attributes m (Request [''page[number]'' \<mapsto> py_str n]) = Inr (n, m))
   \<and> values_get_default (Request Map.empty) ''page[size]'' m = PInt m
   \<and> values_get_default (Request Map.empty) ''page[number]'' 1 = PInt 1
   \<and> values_get_default (Request (vs(k \<mapsto> v))) k d = PStr v
   \<and> (\<forall>n. n < 1 \<longrightarrow>
        get_page_attributes m (Request [''page[number]'' \<mapsto> py_str n]) =
          Inl (ApiException [Error QUERY_INVALID_PAGE_NUMBER (PInt n)]))
   \<and> (\<forall>z. z \<le> m \<longrightarrow>
        get_page_attributes m (Request [''page[size]'' \<mapsto> py_str z]) = Inr (1, z))
   \<and> (\<forall>z. m < z \<longrightarrow>
        get_page_attributes m (Request [''page[size]'' \<mapsto> py_str z]) =
          Inl (ApiException [Error QUERY_INVALID_PAGE_SIZE (PInt z)]))
   \<and> get_page_attributes m (Request [''page[size]'' \<mapsto> []]) =
        Inl (ApiException [Error QUERY_INVALID_PAGE_SIZE (PStr [])])
   \<and> (\<forall>c s. \<not> is_space c \<and> \<not> is_digit c \<and> c \<noteq> CHR ''+'' \<and> c \<noteq> CHR ''-'' \<longrightarrow>
        get_page_attributes m (Request [''page[size]'' \<mapsto> c # s]) =
          Inl (ApiException [Error QUERY_INVALID_PAGE_SIZE (PStr (c # s))]))
   \<and> \<not> is_space (CHR 0x1F) \<and> \<not> is_digit (CHR 0x1F)"
proof -
  have empty: "int_of_str [] = None"
    by (simp add: int_of_str_def str_strip_def)
  have sep: "\<not> is_space (CHR 0x1F) \<and> \<not> is_digit (CHR 0x1F)"
    by (simp add: is_space_def is_digit_def)
  show ?thesis
    by (simp add: get_page_attributes_def values_get_default_def Let_def int_of_str_py_str
          empty int_of_str_bad_start sep)
qed

theorem get_page_attributes_spec_witness:
  "get_page_attributes 50 (Request [''page[size]'' \<mapsto> ''10'', ''page[number]'' \<mapsto> ''1234'']) =
     Inr (1234, 10)
   \<and> get_page_attributes 50 (Request Map.empty) = Inr (1, 50)
   \<and> get_page_attributes 50 (Request [''page[size]'' \<mapsto> ''ten'']) =
     Inl (ApiException [Error QUERY_INVALID_PAGE_SIZE (PStr ''ten'')])
   \<and> get_page_attributes 50 (Request [''page[size]'' \<mapsto> ''51'']) =
     Inl (ApiException [Error QUERY_INVALID_PAGE_SIZE (PInt 51)])
   \<and> get_page_attributes 50 (Request [''page[number]'' \<mapsto> ''1.5'']) =
     Inl (ApiException [Error QUERY_INVALID_PAGE_NUMBER (PStr ''1.5'')])
   \<and> get_page_attributes 50 (Request [''page[number]'' \<mapsto> ''0'']) =
     Inl (ApiException [Error QUERY_INVALID_PAGE_NUMBER (PInt 0)])
   \<and> get_page_attributes 50 (Request [''page[size]'' \<mapsto> [CHR 0x1F, CHR ''7'']]) =
     Inl (ApiException [Error QUERY_INVALID_PAGE_SIZE (PStr [CHR 0x1F, CHR ''7''])])
   \<and> get_page_attributes 50 (Request [''page[size]'' \<mapsto> '' +7 '']) = Inr (1, 7)
   \<and> get_page_attributes 50 (Request [''page[size]'' \<mapsto> ''-7'']) = Inr (1, - 7)"
proof -
  have p: "int_of_str ''10'' = Some 10" "int_of_str ''1234'' = Some 1234"
    "int_of_str ''ten'' = None" "int_of_str ''51'' = Some 51"
    "int_of_str ''1.5'' = None" "int_of_str ''0'' = Some 0"
    "int_of_str [CHR 0x1F, CHR ''7''] = None" "int_of_str '' +7 '' = Some 7"
    "int_of_str ''-7'' = Some (- 7)"
    by code_simp+
  show ?thesis
    using get_page_attributes_spec [of "Request [''page[size]'' \<mapsto> ''10'', ''page[number]'' \<mapsto> ''1234'']" 50]
      get_page_attributes_spec [of "Request Map.empty" 50]
      get_page_attributes_spec [of "Request [''page[size]'' \<mapsto> ''ten'']" 50]
      get_page_attributes_spec [of "Request [''page[size]'' \<mapsto> ''51'']" 50]
      get_page_attributes_spec [of "Request [''page[number]'' \<mapsto> ''1.5'']" 50]
      get_page_attributes_spec [of "Request [''page[number]'' \<mapsto> ''0'']" 50]
      get_page_attributes_spec [of "Request [''page[size]'' \<mapsto> [CHR 0x1F, CHR ''7'']]" 50]
      get_page_attributes_spec [of "Request [''page[size]'' \<mapsto> '' +7 '']" 50]
      get_page_attributes_spec [of "Request [''page[size]'' \<mapsto> ''-7'']" 50]
    by (simp add: values_get_default_def p)
qed

section \<open>Properties of the fix-up of \<open>id\<close>\<close>

lemma set_attributes_id_Inr:
  assumes "set_attributes_id item = Inr item'"
  shows "\<exists>i a. map_of item ''id'' = Some i \<and> map_of item ''attributes'' = Some (JObj a)
           \<and> item' = AList.update ''attributes'' (JObj (AList.update ''id'' i a)) item"
  using assms
  by (auto simp: set_attributes_id_def split: option.splits json.splits)

lemma set_attributes_id_result:
  assumes "set_attributes_id item = Inr item'"
  shows "attributes_id item' = map_of item' ''id''" "map_of item' ''id'' \<noteq> None"
    "map_of item' ''id'' = map_of item ''id''" "map fst item' = map fst item"
proof -
  obtain i a where i: "map_of item ''id'' = Some i"
    and a: "map_of item ''attributes'' = Some (JObj a)"
    and item': "item' = AList.update ''attributes'' (JObj (AList.update ''id'' i a)) item"
    using set_attributes_id_Inr [OF assms] by blast
  have key: "''attributes'' \<in> set (map fst item)"
    using a by (metis map_of_eq_None_iff option.distinct(1) set_map)
  show id': "map_of item' ''id'' = map_of item ''id''"
    by (simp add: item' update_conv')
  show "map_of item' ''id'' \<noteq> None" using id' i by simp
  show "attributes_id item' = map_of item' ''id''"
    using i by (simp add: attributes_id_def item' update_conv')
  show "map fst item' = map fst item"
    using key by (simp add: item' update_keys)
qed

lemma set_attributes_id_not_api: "set_attributes_id item \<noteq> Inl (ApiException errs)"
  by (auto simp: set_attributes_id_def split: option.splits json.splits)

lemma fix_many_not_api: "fix_many items \<noteq> Inl (ApiException errs)"
  by (induction items) (auto simp: set_attributes_id_not_api split: sum.splits)

lemma fix_one_not_api: "fix_one data \<noteq> Inl (ApiException errs)"
  by (auto simp: fix_one_def set_attributes_id_not_api split: option.splits sum.splits)

lemma fix_id_not_api: "fix_id data \<noteq> Inl (ApiException errs)"
  by (auto simp: fix_id_def fix_many_not_api fix_one_not_api split: document.splits sum.splits)

lemma fix_many_all_attributes:
  assumes "fix_many items = Inr items'"
    and "\<forall>item' \<in> set items'. ''attributes'' \<in> set (map fst item')"
  shows "\<forall>item' \<in> set items'. attributes_id item' = map_of item' ''id'' \<and> map_of item' ''id'' \<noteq> None"
  using assms
proof (induction items arbitrary: items')
  case Nil
  then show ?case by simp
next
  case (Cons item items)
  show ?case
  proof (cases "''attributes'' \<in> set (map fst item)")
    case False
    with Cons.prems have "items' = item # items" by simp
    with Cons.prems(2) False show ?thesis by simp
  next
    case True
    with Cons.prems(1) obtain x xs where x: "set_attributes_id item = Inr x"
      and xs: "fix_many items = Inr xs" and items': "items' = x # xs"
      by (auto split: sum.splits)
    have "\<forall>item' \<in> set xs. attributes_id item' = map_of item' ''id'' \<and> map_of item' ''id'' \<noteq> None"
      using Cons.IH [OF xs] Cons.prems(2) items' by simp
    with set_attributes_id_result(1,2) [OF x] items' show ?thesis by simp
  qed
qed


text \<open>
  C2 (as stated, refuted). The first resource has no attributes object, the second has
  one: the loop stops at the first, and the second is returned without \<open>id\<close> in its
  attributes, also when \<open>fetch_data\<close> runs on such rows.
\<close>

theorem fix_many_skip_counterexample:
  "fix_many [[(''id'', JInt 1)],
             [(''id'', JInt 2), (''attributes'', JObj [(''name'', JStr ''Theta'')])]] =
     Inr [[(''id'', JInt 1)],
          [(''id'', JInt 2), (''attributes'', JObj [(''name'', JStr ''Theta'')])]]
   \<and> attributes_id [(''id'', JInt 2), (''attributes'', JObj [(''name'', JStr ''Theta'')])] = None
   \<and> fst (fetch_data example_schema ''map'' example_root 50 (Request Map.empty) [] [] None
            True None None True [] example_db_mixed) =
     Inr (Many [[(''id'', JInt 1), (''type'', JStr ''map'')],
                [(''id'', JInt 2), (''type'', JStr ''map''),
                 (''attributes'', JObj [(''name'', JStr ''Theta'')])]])"
  by code_simp

text \<open>
  C2 (amended). A resource without an attributes object is not an error, and it ends the
  loop: when every resource before it has one, the result is the fix-up of those
  resources (each then has \<open>attributes.id = id\<close>) followed by that resource and all later
  ones unchanged.
\<close>

theorem fix_many_break:
  assumes "\<forall>item \<in> set before. ''attributes'' \<in> set (map fst item)"
    and "''attributes'' \<notin> set (map fst x)"
  shows "fix_many (before @ x # later) =
           (case fix_many before of
              Inl e \<Rightarrow> Inl e
            | Inr before' \<Rightarrow> Inr (before' @ x # later))
       \<and> (\<forall>before'. fix_many before = Inr before' \<longrightarrow>
             length before' = length before
           \<and> (\<forall>item' \<in> set before'.
                 attributes_id item' = map_of item' ''id'' \<and> map_of item' ''id'' \<noteq> None))"
proof (intro conjI allI impI)
  show "fix_many (before @ x # later) =
           (case fix_many before of
              Inl e \<Rightarrow> Inl e
            | Inr before' \<Rightarrow> Inr (before' @ x # later))"
    using assms(1)
  proof (induction before)
    case Nil
    show ?case using assms(2) by simp
  next
    case (Cons item items)
    then show ?case by (auto split: sum.splits)
  qed
next
  fix before' assume b: "fix_many before = Inr before'"
  have keys: "map (map fst) before' = map (map fst) before"
    using b assms(1)
  proof (induction before arbitrary: before')
    case Nil
    then show ?case by simp
  next
    case (Cons item items)
    then obtain y ys where y: "set_attributes_id item = Inr y"
      and ys: "fix_many items = Inr ys" and b': "before' = y # ys"
      by (auto split: sum.splits)
    with Cons set_attributes_id_result(4) [OF y] show ?case by simp
  qed
  then show "length before' = length before"
    by (metis length_map)
  have "\<forall>item' \<in> set before'. ''attributes'' \<in> set (map fst item')"
  proof
    fix item' assume "item' \<in> set before'"
    then have "map fst item' \<in> set (map (map fst) before)"
      using keys by (metis image_eqI list.set_map)
    then obtain item where "item \<in> set before" "map fst item' = map fst item"
      by auto
    then show "''attributes'' \<in> set (map fst item')"
      using assms(1) by metis
  qed
  with b show "\<forall>item' \<in> set before'.
                 attributes_id item' = map_of item' ''id'' \<and> map_of item' ''id'' \<noteq> None"
    by (rule fix_many_all_attributes)
qed

theorem fix_many_break_witness:
  "fix_many ([[(''id'', JInt 1), (''attributes'', JObj [(''name'', JStr ''Seton'')])]]
             @ [(''id'', JInt 2)]
             # [[(''id'', JInt 3), (''attributes'', JObj [(''name'', JStr ''Theta'')])]]) =
     Inr [[(''id'', JInt 1), (''attributes'', JObj [(''name'', JStr ''Seton''), (''id'', JInt 1)])],
          [(''id'', JInt 2)],
          [(''id'', JInt 3), (''attributes'', JObj [(''name'', JStr ''Theta'')])]]"
proof -
  have f: "fix_many [[(''id'', JInt 1), (''attributes'', JObj [(''name'', JStr ''Seton'')])]] =
     Inr [[(''id'', JInt 1), (''attributes'', JObj [(''name'', JStr ''Seton''), (''id'', JInt 1)])]]"
    by code_simp
  have h1: "\<forall>item \<in> set [[(''id'', JInt 1), (''attributes'', JObj [(''name'', JStr ''Seton'')])]].
              ''attributes'' \<in> set (map fst item)"
    by simp
  have h2: "''attributes'' \<notin> set (map fst [(''id'', JInt 2)])"
    by simp
  show ?thesis
    using fix_many_break [OF h1 h2,
        of "[[(''id'', JInt 3), (''attributes'', JObj [(''name'', JStr ''Theta'')])]]"]
    by (simp only: f sum.case append_Cons append_Nil)
qed

section \<open>Properties of \<open>fetch_data\<close>\<close>

lemma execute_cases:
  "execute db statement args =
     (case respond db statement args of
        Inl message \<Rightarrow> Inl (DatabaseError message)
      | Inr rows \<Rightarrow> Inr rows,
      Database (respond db) (executed db @ [(statement, args)]))"
  by (simp add: execute_def Let_def split: sum.splits)

lemma fetch_data_invalid:
  assumes "(if many then resolve_many m request limit (effective_sort sort' request)
                       (fst (resolve_fields schema request root nested))
            else Inr ([], [])) = Inl e"
  shows "fetch_data schema table root m request w we args many enricher sort' limit nested db =
           (Inl e, db)"
  using assms by (simp add: fetch_data_def Let_def case_prod_beta)

lemma fetch_data_valid:
  assumes "(if many then resolve_many m request limit (effective_sort sort' request)
                       (fst (resolve_fields schema request root nested))
            else Inr ([], [])) = Inr (lim, ob)"
  shows "fetch_data schema table root m request w we args many enricher sort' limit nested db =
           (case respond db
                   (select_statement
                      (get_select_expressions (Some (fst (resolve_fields schema request root nested)))
                         (merge_select_dict root nested))
                      table (where_part w we) ob lim) args of
              Inl message \<Rightarrow> Inl (DatabaseError message)
            | Inr rows \<Rightarrow>
                if snd (resolve_fields schema request root nested)
                then fix_id (dump_result schema many enricher rows)
                else Inr (dump_result schema many enricher rows),
            Database (respond db)
              (executed db @
               [(select_statement
                   (get_select_expressions (Some (fst (resolve_fields schema request root nested)))
                      (merge_select_dict root nested))
                   table (where_part w we) ob lim, args)]))"
  using assms
  by (simp add: fetch_data_def Let_def case_prod_beta execute_cases split: sum.splits)


lemma get_page_attributes_Inl:
  assumes "get_page_attributes m request = Inl e"
  shows "\<exists>v. e = ApiException [Error QUERY_INVALID_PAGE_SIZE v]
           \<or> e = ApiException [Error QUERY_INVALID_PAGE_NUMBER v]"
  using assms
  by (auto simp: get_page_attributes_def Let_def split: option.splits if_splits)

lemma get_order_by_Inl:
  assumes "get_order_by s valid = Inl e"
  shows "\<exists>v. e = ApiException [Error QUERY_INVALID_SORT_FIELD v]"
  using assms
  by (auto simp: get_order_by_def order_bys_loop_acc split: option.splits if_splits sum.splits)

lemma resolve_many_Inl_api:
  assumes "resolve_many m request limit s fields = Inl (ApiException errs)"
  shows "\<exists>v. errs = [Error QUERY_INVALID_SORT_FIELD v]
           \<or> errs = [Error QUERY_INVALID_PAGE_SIZE v]
           \<or> errs = [Error QUERY_INVALID_PAGE_NUMBER v]"
proof (cases "get_page_attributes m request")
  case (Inl e)
  with assms have "e = ApiException errs" by (simp add: resolve_many_def)
  with get_page_attributes_Inl [OF Inl] show ?thesis by auto
next
  case (Inr pp)
  obtain page page_size where pp: "pp = (page, page_size)" by (cases pp)
  have lim: "get_limit (PInt page) (PInt page_size) \<noteq> Inl (ApiException errs)"
    by (simp add: get_limit_def)
  from assms Inr pp lim have "get_order_by s fields = Inl (ApiException errs)"
    by (auto simp: resolve_many_def split: if_splits sum.splits)
  with get_order_by_Inl show ?thesis by blast
qed

text \<open>
  C8. An \<open>ApiException\<close>, which is what carries the three validation codes, leaves
  \<open>fetch_data\<close> only from the validation of many mode and before \<open>execute\<close>: the database
  is returned as it was passed in, with nothing added to the log of executed
  statements. Conversely, whatever the validation raises is what \<open>fetch_data\<close> raises.
\<close>

theorem fetch_data_validation_before_execute:
  "(\<forall>errs db'.
      fetch_data schema table root m request w we args many enricher sort' limit nested db =
        (Inl (ApiException errs), db') \<longrightarrow>
      db' = db \<and> many
      \<and> (\<exists>v. errs = [Error QUERY_INVALID_SORT_FIELD v]
             \<or> errs = [Error QUERY_INVALID_PAGE_SIZE v]
             \<or> errs = [Error QUERY_INVALID_PAGE_NUMBER v]))
   \<and> (\<forall>e. many \<and> resolve_many m request limit (effective_sort sort' request)
                    (fst (resolve_fields schema request root nested)) = Inl e \<longrightarrow>
          fetch_data schema table root m request w we args many enricher sort' limit nested db =
            (Inl e, db))"
proof (rule conjI; intro allI impI)
  fix e
  assume "many \<and> resolve_many m request limit (effective_sort sort' request)
                    (fst (resolve_fields schema request root nested)) = Inl e"
  then show "fetch_data schema table root m request w we args many enricher sort' limit nested db =
            (Inl e, db)"
    by (intro fetch_data_invalid) simp
next
  fix errs db'
  assume r: "fetch_data schema table root m request w we args many enricher sort' limit nested db =
        (Inl (ApiException errs), db')"
  let ?v = "if many then resolve_many m request limit (effective_sort sort' request)
                       (fst (resolve_fields schema request root nested))
            else Inr ([], [])"
  have inl: "\<exists>e. ?v = Inl e"
  proof (rule ccontr)
    assume "\<not> (\<exists>e. ?v = Inl e)"
    then obtain lim ob where "?v = Inr (lim, ob)"
      by (cases ?v) auto
    from r fetch_data_valid [OF this]
    show False
      by (auto simp: fix_id_not_api split: sum.splits if_splits)
  qed
  then obtain e where e: "?v = Inl e" by blast
  from r fetch_data_invalid [OF e]
  have eq: "e = ApiException errs" and db: "db' = db" by simp_all
  from e have many: many by (auto split: if_splits)
  with e eq have "resolve_many m request limit (effective_sort sort' request)
                    (fst (resolve_fields schema request root nested)) = Inl (ApiException errs)"
    by simp
  from resolve_many_Inl_api [OF this] db many
  show "db' = db \<and> many
      \<and> (\<exists>v. errs = [Error QUERY_INVALID_SORT_FIELD v]
             \<or> errs = [Error QUERY_INVALID_PAGE_SIZE v]
             \<or> errs = [Error QUERY_INVALID_PAGE_NUMBER v])"
    by simp
qed

theorem fetch_data_validation_before_execute_witness:
  "fst (fetch_data example_schema ''map'' example_root 50 (Request [''sort'' \<mapsto> ''-nope''])
          ''a = 1'' [] None True None None True [] example_db) =
     Inl (ApiException [Error QUERY_INVALID_SORT_FIELD (PStr ''nope'')])
   \<and> snd (fetch_data example_schema ''map'' example_root 50 (Request [''sort'' \<mapsto> ''-nope''])
          ''a = 1'' [] None True None None True [] example_db) = example_db
   \<and> fst (fetch_data example_schema ''map'' example_root 50 (Request [''page[number]'' \<mapsto> ''0''])
          ''a = 1'' [] None True None None True [] example_db) =
     Inl (ApiException [Error QUERY_INVALID_PAGE_NUMBER (PInt 0)])
   \<and> snd (fetch_data example_schema ''map'' example_root 50 (Request [''page[number]'' \<mapsto> ''0''])
          ''a = 1'' [] None True None None True [] example_db) = example_db"
proof -
  have s: "fst (fetch_data example_schema ''map'' example_root 50 (Request [''sort'' \<mapsto> ''-nope''])
          ''a = 1'' [] None True None None True [] example_db) =
     Inl (ApiException [Error QUERY_INVALID_SORT_FIELD (PStr ''nope'')])"
    by code_simp
  have p: "fst (fetch_data example_schema ''map'' example_root 50 (Request [''page[number]'' \<mapsto> ''0''])
          ''a = 1'' [] None True None None True [] example_db) =
     Inl (ApiException [Error QUERY_INVALID_PAGE_NUMBER (PInt 0)])"
    by code_simp
  have pair: "x = (a, snd x)" if "fst x = a" for x :: "(exn + document) \<times> database" and a
    using that by (cases x) simp
  show ?thesis
    using s p
      fetch_data_validation_before_execute
        [of example_schema "''map''" example_root 50 "Request [''sort'' \<mapsto> ''-nope'']"
            "''a = 1''" "[]" None True None None True "[]" example_db]
      fetch_data_validation_before_execute
        [of example_schema "''map''" example_root 50 "Request [''page[number]'' \<mapsto> ''0'']"
            "''a = 1''" "[]" None True None None True "[]" example_db]
      pair [OF s] pair [OF p]
    by metis
qed

text \<open>
  C9 (as stated, refuted). With \<open>many=True\<close> and \<open>limit=False\<close> a page size that is not a
  number still raises \<open>InvalidPageSize\<close>.
\<close>

theorem fetch_data_no_limit_counterexample:
  "fst (fetch_data example_schema ''map'' example_root 50 (Request [''page[size]'' \<mapsto> ''abc''])
          [] [] None True None None False [] example_db) =
     Inl (ApiException [Error QUERY_INVALID_PAGE_SIZE (PStr ''abc'')])"
  by code_simp

text \<open>
  C9 (amended). With \<open>many=True\<close> and \<open>limit=False\<close> the page parameters are validated as
  always: an error of \<open>get_page_attributes\<close> is the error of \<open>fetch_data\<close>, raised before
  anything is executed. Only the \<open>LIMIT\<close> clause is left out: when the validation and the
  sort pass, the executed statement ends with an empty limit expression.
\<close>

theorem fetch_data_no_limit:
  "(\<forall>e. get_page_attributes m request = Inl e \<longrightarrow>
        fetch_data schema table root m request w we args True enricher sort' False nested db =
          (Inl e, db))
   \<and> (\<forall>pp ob. get_page_attributes m request = Inr pp
          \<and> get_order_by (effective_sort sort' request)
                (fst (resolve_fields schema request root nested)) = Inr ob \<longrightarrow>
        executed (snd (fetch_data schema table root m request w we args True enricher sort'
                         False nested db)) =
          executed db @
          [(''SELECT '' @
            get_select_expressions (Some (fst (resolve_fields schema request root nested)))
              (merge_select_dict root nested) @
            '' FROM '' @ table @ '' '' @ where_part w we @ '' '' @ ob @ '' '', args)])"
proof (rule conjI; intro allI impI)
  fix e assume "get_page_attributes m request = Inl e"
  then have "(if True then resolve_many m request False (effective_sort sort' request)
                       (fst (resolve_fields schema request root nested))
            else Inr ([], [])) = Inl e"
    by (simp add: resolve_many_def)
  then show "fetch_data schema table root m request w we args True enricher sort' False nested db =
          (Inl e, db)"
    by (rule fetch_data_invalid)
next
  fix pp ob
  assume a: "get_page_attributes m request = Inr pp
          \<and> get_order_by (effective_sort sort' request)
                (fst (resolve_fields schema request root nested)) = Inr ob"
  then have "(if True then resolve_many m request False (effective_sort sort' request)
                       (fst (resolve_fields schema request root nested))
            else Inr ([], [])) = Inr ([], ob)"
    by (cases pp) (simp add: resolve_many_def)
  from fetch_data_valid [OF this]
  show "executed (snd (fetch_data schema table root m request w we args True enricher sort'
                         False nested db)) =
          executed db @
          [(''SELECT '' @
            get_select_expressions (Some (fst (resolve_fields schema request root nested)))
              (merge_select_dict root nested) @
            '' FROM '' @ table @ '' '' @ where_part w we @ '' '' @ ob @ '' '', args)]"
    by (simp add: select_statement_def)
qed

theorem fetch_data_no_limit_witness:
  "fetch_data example_schema ''map'' example_root 50 (Request [''page[number]'' \<mapsto> ''x''])
     ''a = 1'' [] None True None None False [] example_db =
     (Inl (ApiException [Error QUERY_INVALID_PAGE_NUMBER (PStr ''x'')]), example_db)
   \<and> executed (snd (fetch_data example_schema ''map'' example_root 50
                     (Request [''sort'' \<mapsto> ''-name'']) ''a = 1'' [] None True None None False []
                     example_db)) =
     [(''SELECT map.uid AS `id`, map.name AS `name`, feature.likes AS `likes` FROM map WHERE a = 1 ORDER BY `name` DESC '',
       None)]"
proof -
  have e: "get_page_attributes 50 (Request [''page[number]'' \<mapsto> ''x'']) =
             Inl (ApiException [Error QUERY_INVALID_PAGE_NUMBER (PStr ''x'')])"
    by code_simp
  have p: "get_page_attributes 50 (Request [''sort'' \<mapsto> ''-name'']) = Inr (1, 50)"
    by code_simp
  have f: "fst (resolve_fields example_schema (Request [''sort'' \<mapsto> ''-name'']) example_root []) =
             [''id'', ''name'', ''likes'']"
    by code_simp
  have s: "effective_sort None (Request [''sort'' \<mapsto> ''-name'']) = Some ''-name''"
    by code_simp
  have ob: "get_order_by (Some ''-name'') [''id'', ''name'', ''likes''] = Inr ''ORDER BY `name` DESC''"
    by code_simp
  have sel: "get_select_expressions (Some [''id'', ''name'', ''likes''])
               (merge_select_dict example_root []) =
             ''map.uid AS `id`, map.name AS `name`, feature.likes AS `likes`''"
    by code_simp
  have w: "where_part ''a = 1'' [] = ''WHERE a = 1''"
    by code_simp
  have x: "executed example_db = []"
    by (simp add: example_db_def)
  show ?thesis
    using
      fetch_data_no_limit
        [of 50 "Request [''page[number]'' \<mapsto> ''x'']" example_schema "''map''" example_root
            "''a = 1''" "[]" None None None "[]" example_db]
      fetch_data_no_limit
        [of 50 "Request [''sort'' \<mapsto> ''-name'']" example_schema "''map''" example_root
            "''a = 1''" "[]" None None None "[]" example_db]
    by (simp add: e p f s ob sel w x)
qed

text \<open>
  C10. When the validation passes, the one statement that is executed is
  \<open>SELECT <select list> FROM <table> <where> <order by> <limit>\<close>, where \<open><where>\<close> is
  \<open>WHERE\<close> and the where clause if that clause is not empty, followed by a space and the
  extension if the extension is not empty. So an extension with an empty where clause
  stands in the statement after a space, with no \<open>WHERE\<close> keyword before it.
\<close>

theorem fetch_data_where_assembly:
  assumes "(if many then resolve_many m request limit (effective_sort sort' request)
                       (fst (resolve_fields schema request root nested))
            else Inr ([], [])) = Inr (lim, ob)"
  shows "executed (snd (fetch_data schema table root m request w we args many enricher sort'
                          limit nested db)) =
           executed db @
           [(''SELECT '' @
             get_select_expressions (Some (fst (resolve_fields schema request root nested)))
               (merge_select_dict root nested) @
             '' FROM '' @ table @ '' '' @
             (if w = [] then [] else ''WHERE '' @ w) @ (if we = [] then [] else '' '' @ we) @
             '' '' @ ob @ '' '' @ lim, args)]
       \<and> (w = [] \<and> we \<noteq> [] \<longrightarrow>
            executed (snd (fetch_data schema table root m request w we args many enricher sort'
                          limit nested db)) =
            executed db @
            [(''SELECT '' @
              get_select_expressions (Some (fst (resolve_fields schema request root nested)))
                (merge_select_dict root nested) @
              '' FROM '' @ table @ ''  '' @ we @ '' '' @ ob @ '' '' @ lim, args)])"
proof -
  have wp: "where_part w we =
              (if w = [] then [] else ''WHERE '' @ w) @ (if we = [] then [] else '' '' @ we)"
    by (simp add: where_part_def Let_def)
  have "executed (snd (fetch_data schema table root m request w we args many enricher sort'
                          limit nested db)) =
        executed db @
        [(select_statement
            (get_select_expressions (Some (fst (resolve_fields schema request root nested)))
               (merge_select_dict root nested))
            table (where_part w we) ob lim, args)]"
    by (simp add: fetch_data_valid [OF assms])
  then have c1: "executed (snd (fetch_data schema table root m request w we args many enricher
                          sort' limit nested db)) =
           executed db @
           [(''SELECT '' @
             get_select_expressions (Some (fst (resolve_fields schema request root nested)))
               (merge_select_dict root nested) @
             '' FROM '' @ table @ '' '' @
             (if w = [] then [] else ''WHERE '' @ w) @ (if we = [] then [] else '' '' @ we) @
             '' '' @ ob @ '' '' @ lim, args)]"
    by (simp add: select_statement_def wp)
  show ?thesis
  proof (rule conjI [OF c1], rule impI)
    assume a: "w = [] \<and> we \<noteq> []"
    show "executed (snd (fetch_data schema table root m request w we args many enricher sort'
                          limit nested db)) =
            executed db @
            [(''SELECT '' @
              get_select_expressions (Some (fst (resolve_fields schema request root nested)))
                (merge_select_dict root nested) @
              '' FROM '' @ table @ ''  '' @ we @ '' '' @ ob @ '' '' @ lim, args)]"
      unfolding c1 using a by simp
  qed
qed

theorem fetch_data_where_assembly_witness:
  "executed (snd (fetch_data example_schema ''map'' example_root 50
                    (Request [''fields[map]'' \<mapsto> ''name'']) [] ''x = 1'' None False None None True []
                    example_db)) =
     [(''SELECT map.name AS `name`, map.uid AS `id` FROM map  x = 1  '', None)]"
proof -
  have v: "(if False then resolve_many 50 (Request [''fields[map]'' \<mapsto> ''name'']) True
                       (effective_sort None (Request [''fields[map]'' \<mapsto> ''name'']))
                       (fst (resolve_fields example_schema (Request [''fields[map]'' \<mapsto> ''name''])
                               example_root []))
            else Inr ([], [])) = Inr ([], [])"
    by simp
  have f: "fst (resolve_fields example_schema (Request [''fields[map]'' \<mapsto> ''name'']) example_root []) =
             [''name'', ''id'']"
    by code_simp
  have sel: "get_select_expressions (Some [''name'', ''id'']) (merge_select_dict example_root []) =
             ''map.name AS `name`, map.uid AS `id`''"
    by code_simp
  have x: "executed example_db = []"
    by (simp add: example_db_def)
  show ?thesis
    using fetch_data_where_assembly [OF v, of "''map''" "[]" "''x = 1''" None None example_db]
    by (simp add: f sel x)
qed






end
